theory Spec2Isabelle
  imports Main
begin

section \<open>Errors\<close>

text \<open>
  Every \<open>throwError\<close>, \<open>throw new Error\<close> and uncaught runtime exception of the client
  is a value of \<open>LitError\<close>; a function that can throw returns \<open>LitError + 'a\<close>.
\<close>

datatype LitError =
    ParamsMissing
  | InvalidParamType
  | InvalidEthBlockhash
  | WalletSignatureNotFound
  | JsonSyntaxError
  | TypeError
  | SiweParseError
  | RecapDecodeError
  | CallbackError
  | ProofOfPossessionMissing
  | NotEnoughNodes
  | SignedDataListEmpty
  | LibraryError
  | NumericFault

section \<open>Data model of sessions\<close>

record SessionKeyPair =
  publicKey :: string
  secretKey :: string

text \<open>
  \<open>AuthSig\<close>. A wallet signature carries the SIWE text as its \<open>signedMessage\<close>
  (\<open>string AuthSig\<close>). A session signature carries \<open>JSON.stringify(toSign)\<close>; the model
  keeps the object \<open>toSign\<close> that was serialised, so that the fields of the signed message
  can be read back.
\<close>

record 'm AuthSig =
  sig :: string
  derivedVia :: string
  signedMessage :: 'm
  address :: string
  algo :: "string option"

datatype LitAbility =
    AccessControlConditionDecryption
  | AccessControlConditionSigning
  | PKPSigning
  | LitActionExecution

datatype ILitResource = LitResource (resourcePrefix: string) (resourceId: string)

text \<open>
  \<open>getResourceKey\<close>, as used by \<open>#getIdentityParamForEncryption\<close>: prefix, \<open>://\<close>,
  identifier.
\<close>

definition getResourceKey :: "ILitResource \<Rightarrow> string" where
  "getResourceKey r = resourcePrefix r @ ''://'' @ resourceId r"

record LitResourceAbilityRequest =
  resource :: ILitResource
  ability :: LitAbility

record SessionSigningTemplate =
  sessionKey :: string
  resourceAbilityRequests :: "LitResourceAbilityRequest list"
  capabilities :: "string AuthSig list"
  issuedAt :: string
  expiration :: string
  nodeAddress :: string

type_synonym SessionSig = "SessionSigningTemplate AuthSig"

type_synonym SessionSigsMap = "string \<rightharpoonup> SessionSig"

text \<open>
  The own enumerable properties of the object \<open>toSign\<close> whose value is a string:
  \<open>toSign[key]\<close>. The two array-valued keys and every other key give \<open>None\<close>.
\<close>

definition stringProperty :: "SessionSigningTemplate \<Rightarrow> string \<Rightarrow> string option" where
  "stringProperty t key =
     (if key = ''sessionKey'' then Some (sessionKey t)
      else if key = ''issuedAt'' then Some (issuedAt t)
      else if key = ''expiration'' then Some (expiration t)
      else if key = ''nodeAddress'' then Some (nodeAddress t)
      else None)"

section \<open>Capability object\<close>

datatype AbilityTag = AnyAbility | Ability LitAbility

text \<open>
  Modelled from the spec: \<open>RecapSessionCapabilityObject\<close> of the auth-helpers package is
  not among the sources. The spec describes the capability object as an ordered collection
  of grants from resource keys to ability tags, \<open>addAllCapabilitiesForResource\<close> as the
  wildcard grant for a resource, and \<open>verifyCapabilitiesForResource(r, a)\<close> as true iff
  either a wildcard grant or an exact match is present.
\<close>

type_synonym ISessionCapabilityObject = "(string \<times> AbilityTag) list"

text \<open>
  Modelled from the spec: \<open>new RecapSessionCapabilityObject({}, [])\<close>, the capability
  object without grants.
\<close>

definition newRecapSessionCapabilityObject :: ISessionCapabilityObject where
  "newRecapSessionCapabilityObject = []"

text \<open>
  Modelled from the spec: \<open>addCapability(resource, ability)\<close> records one grant.
\<close>

definition addGrant :: "ISessionCapabilityObject \<Rightarrow> string \<times> AbilityTag \<Rightarrow> ISessionCapabilityObject" where
  "addGrant c g = (if g \<in> set c then c else c @ [g])"

text \<open>
  Modelled from the spec: \<open>addCapabilityForResource\<close> grants one ability on a resource.
\<close>

definition addCapabilityForResource ::
  "ISessionCapabilityObject \<Rightarrow> ILitResource \<Rightarrow> LitAbility \<Rightarrow> ISessionCapabilityObject" where
  "addCapabilityForResource c r a = addGrant c (getResourceKey r, Ability a)"

text \<open>
  Modelled from the spec: \<open>addAllCapabilitiesForResource\<close> grants the wildcard ability
  on a resource.
\<close>

definition addAllCapabilitiesForResource ::
  "ISessionCapabilityObject \<Rightarrow> ILitResource \<Rightarrow> ISessionCapabilityObject" where
  "addAllCapabilitiesForResource c r = addGrant c (getResourceKey r, AnyAbility)"

text \<open>
  Modelled from the spec: \<open>verifyCapabilitiesForResource(r, a)\<close> is true iff either a
  wildcard grant or an exact match is present.
\<close>

definition verifyCapabilitiesForResource ::
  "ISessionCapabilityObject \<Rightarrow> ILitResource \<Rightarrow> LitAbility \<Rightarrow> bool" where
  "verifyCapabilitiesForResource c r a =
     ((getResourceKey r, AnyAbility) \<in> set c \<or> (getResourceKey r, Ability a) \<in> set c)"

text \<open>
  The static \<open>generateSessionCapabilityObjectWithWildcards(litResources, addAllCapabilities?)\<close>:
  \<open>addAllCapabilities ?? false\<close> decides whether the loop over the resources runs.
\<close>

definition generateSessionCapabilityObjectWithWildcards_static ::
  "ILitResource list \<Rightarrow> bool option \<Rightarrow> ISessionCapabilityObject" where
  "generateSessionCapabilityObjectWithWildcards_static litResources addAllCapabilities =
     (let sessionCapabilityObject = newRecapSessionCapabilityObject;
          addAll = (case addAllCapabilities of None \<Rightarrow> False | Some b \<Rightarrow> b)
      in if addAll then foldl addAllCapabilitiesForResource sessionCapabilityObject litResources
         else sessionCapabilityObject)"

text \<open>
  The instance method (backward compatibility): it passes the resources only, so
  \<open>addAllCapabilities\<close> is \<open>undefined\<close> in the static method.
\<close>

definition generateSessionCapabilityObjectWithWildcards ::
  "ILitResource list \<Rightarrow> ISessionCapabilityObject" where
  "generateSessionCapabilityObjectWithWildcards litResources =
     generateSessionCapabilityObjectWithWildcards_static litResources None"

section \<open>SIWE messages, storage and the collaborators of the client\<close>

record SiweMessage =
  uri :: string
  resources :: "string list option"

text \<open>
  Modelled from the spec: the storage adapter, \<open>get(key)\<close>, \<open>set(key, string)\<close> and
  \<open>remove(key)\<close>, each with a result or an error; \<open>getStorageItem\<close>, \<open>setStorageItem\<close>
  and \<open>removeStorageItem\<close> of misc-browser are not among the sources. A read of an
  absent key, and every read of a store that cannot be read, is an error; every write
  to a store that cannot be written is an error and leaves the store as it is.
\<close>

record Storage =
  items :: "string \<rightharpoonup> string"
  readFails :: bool
  writeFails :: bool

datatype 'a IEither = ELeft | ERight 'a

text \<open>Modelled from the spec: \<open>get(key)\<close> of the storage adapter.\<close>

definition getStorageItem :: "Storage \<Rightarrow> string \<Rightarrow> string IEither" where
  "getStorageItem st key =
     (if readFails st then ELeft
      else case items st key of None \<Rightarrow> ELeft | Some v \<Rightarrow> ERight v)"

text \<open>Modelled from the spec: \<open>set(key, string)\<close> of the storage adapter.\<close>

definition setStorageItem :: "Storage \<Rightarrow> string \<Rightarrow> string \<Rightarrow> unit IEither \<times> Storage" where
  "setStorageItem st key v =
     (if writeFails st then (ELeft, st)
      else (ERight (), st \<lparr> items := (items st)(key \<mapsto> v) \<rparr>))"

text \<open>Modelled from the spec: \<open>remove(key)\<close> of the storage adapter.\<close>

definition removeStorageItem :: "Storage \<Rightarrow> string \<Rightarrow> unit IEither \<times> Storage" where
  "removeStorageItem st key =
     (if writeFails st then (ELeft, st)
      else (ERight (), st \<lparr> items := (items st)(key := None) \<rparr>))"

text \<open>
  Modelled from the spec: the persisted slots \<open>lit-wallet-signature\<close> and
  \<open>lit-session-key\<close> (\<open>LOCAL_STORAGE_KEYS\<close> of the constants package).
\<close>

definition WALLET_SIGNATURE :: string where
  "WALLET_SIGNATURE = ''lit-wallet-signature''"

definition SESSION_KEY :: string where
  "SESSION_KEY = ''lit-session-key''"

text \<open>
  Modelled from the spec: the SessionKeyUri is the string \<open>lit:session:\<close> followed by the
  public key (\<open>LIT_SESSION_KEY_URI\<close> of the constants package).
\<close>

definition LIT_SESSION_KEY_URI :: string where
  "LIT_SESSION_KEY_URI = ''lit:session:''"

text \<open>
  The parameters of an auth callback; the fields are those of the object literals that
  \<open>#getWalletSig\<close> and \<open>getSessionSigs\<close> build, written with the prefix \<open>cb_\<close>.
  An absent property is \<open>None\<close>.
\<close>

record AuthCallbackParams =
  cb_chain :: string
  cb_statement :: "string option"
  cb_resources :: "string list option"
  cb_switchChain :: "bool option"
  cb_expiration :: "string option"
  cb_uri :: "string option"
  cb_sessionKey :: "SessionKeyPair option"
  cb_nonce :: string
  cb_resourceAbilityRequests :: "LitResourceAbilityRequest list option"
  cb_litActionCode :: "string option"
  cb_litActionIpfsId :: "string option"
  cb_jsParams :: "string option"

text \<open>An auth callback either throws or resolves to an AuthSig.\<close>

type_synonym AuthCallback = "AuthCallbackParams \<Rightarrow> LitError + string AuthSig"

text \<open>
  The libraries the client calls, as parameters.
  \<^item> \<open>parseSiweMessage\<close>: \<open>new SiweMessage(text)\<close>; \<open>None\<close> when the constructor throws.
  \<^item> \<open>siweValidate\<close>: \<open>message.validate(sig)\<close>; \<open>False\<close> when it throws.
  \<^item> \<open>decode\<close>: \<open>decode(resource)\<close> of auth-helpers; \<open>None\<close> when it throws.
  \<^item> \<open>encodeAsSiweResource\<close>, \<open>statement\<close>: of the capability object.
  \<^item> \<open>jsonParseAuthSig\<close>, \<open>jsonParseSessionKey\<close>: \<open>JSON.parse\<close>; \<open>None\<close> is its SyntaxError.
  \<^item> \<open>jsonStringifyAuthSig\<close>, \<open>jsonStringifySessionKey\<close>: \<open>JSON.stringify\<close>.
  \<^item> \<open>generateSessionKeyPair\<close>: the fresh key pair of the crypto package.
  \<^item> \<open>naclSignDetached\<close>: the hex string of \<open>nacl.sign.detached\<close> over the serialised
    template, under the secret key.
  \<^item> \<open>toISOString\<close>: \<open>new Date(ms).toISOString()\<close>.
  \<^item> \<open>sha256\<close>: the SHA-256 digest of a string, read as a number (\<open>BigNumber.from\<close>).
  \<^item> \<open>getIpfsId\<close>: the result of \<open>this.getIpfsId\<close>, which runs an action on the network.
\<close>

record Env =
  parseSiweMessage :: "string \<Rightarrow> SiweMessage option"
  siweValidate :: "SiweMessage \<Rightarrow> string \<Rightarrow> bool"
  decode :: "string \<Rightarrow> ISessionCapabilityObject option"
  encodeAsSiweResource :: "ISessionCapabilityObject \<Rightarrow> string"
  statement :: "ISessionCapabilityObject \<Rightarrow> string"
  jsonParseAuthSig :: "string \<Rightarrow> string AuthSig option"
  jsonParseSessionKey :: "string \<Rightarrow> SessionKeyPair option"
  jsonStringifyAuthSig :: "string AuthSig \<Rightarrow> string"
  jsonStringifySessionKey :: "SessionKeyPair \<Rightarrow> string"
  generateSessionKeyPair :: SessionKeyPair
  naclSignDetached :: "SessionSigningTemplate \<Rightarrow> string \<Rightarrow> string"
  toISOString :: "int \<Rightarrow> string"
  sha256 :: "string \<Rightarrow> nat"
  getIpfsId :: "string option \<Rightarrow> SessionSigsMap \<Rightarrow> LitError + string"

text \<open>The fields of the client (\<open>this\<close>) that the modelled methods read.\<close>

record LitNodeClient =
  defaultAuthCallback :: "AuthCallback option"
  latestBlockhash :: "string option"
  connectedNodes :: "string list"
  bootstrapUrls :: "string list"

text \<open>
  The readings of \<open>Date.now()\<close> in \<open>getSessionSigs\<close>, in milliseconds: in
  \<open>getExpiration\<close>, in the fallback of \<open>sessionExpiration\<close>, and for \<open>issuedAt\<close>.
\<close>

record Clock =
  nowGetExpiration :: int
  nowSessionExpiration :: int
  nowIssuedAt :: int

section \<open>The wallet signature\<close>

text \<open>JavaScript truthiness of an optional string: \<open>undefined\<close> and \<open>''\<close> are falsy.\<close>

definition truthy :: "string option \<Rightarrow> bool" where
  "truthy x = (case x of None \<Rightarrow> False | Some s \<Rightarrow> s \<noteq> [])"

text \<open>\<open>...(x && { key: x })\<close>: the property is present only for a truthy value.\<close>

definition spreadIfTruthy :: "string option \<Rightarrow> string option" where
  "spreadIfTruthy x = (if truthy x then x else None)"

text \<open>
  \<open>#authCallbackAndUpdateStorageItem\<close>: the caller's callback, else the default one,
  else \<open>ParamsMissing\<close>; then the write to the store, and the removal of the key when
  the write fails.
\<close>

definition authCallbackAndUpdateStorageItem ::
  "Env \<Rightarrow> LitNodeClient \<Rightarrow> Storage \<Rightarrow> AuthCallbackParams \<Rightarrow> AuthCallback option
     \<Rightarrow> LitError + (string AuthSig \<times> Storage)" where
  "authCallbackAndUpdateStorageItem env client st authCallbackParams authCallback =
     (case (case authCallback of
              Some cb \<Rightarrow> cb authCallbackParams
            | None \<Rightarrow>
                (case defaultAuthCallback client of
                   None \<Rightarrow> Inl ParamsMissing
                 | Some dcb \<Rightarrow> dcb authCallbackParams)) of
        Inl e \<Rightarrow> Inl e
      | Inr authSig \<Rightarrow>
          (case setStorageItem st WALLET_SIGNATURE (jsonStringifyAuthSig env authSig) of
             (ERight _, st1) \<Rightarrow> Inr (authSig, st1)
           | (ELeft, st1) \<Rightarrow>
               (case removeStorageItem st1 WALLET_SIGNATURE of
                  (_, st2) \<Rightarrow> Inr (authSig, st2))))"

text \<open>The loop of \<open>#checkNeedToResignSessionKey\<close> over the resource ability requests.\<close>

fun capabilitiesDoNotMatch ::
  "ISessionCapabilityObject \<Rightarrow> LitResourceAbilityRequest list \<Rightarrow> bool" where
  "capabilitiesDoNotMatch c [] = False"
| "capabilitiesDoNotMatch c (r # rs) =
     (if \<not> verifyCapabilitiesForResource c (resource r) (ability r) then True
      else capabilitiesDoNotMatch c rs)"

text \<open>
  \<open>#checkNeedToResignSessionKey\<close>. The constructor of the SIWE message and \<open>decode\<close>
  are outside every \<open>try\<close>: when they throw, the method throws.
\<close>

definition checkNeedToResignSessionKey ::
  "Env \<Rightarrow> string AuthSig \<Rightarrow> string \<Rightarrow> LitResourceAbilityRequest list \<Rightarrow> LitError + bool" where
  "checkNeedToResignSessionKey env authSig sessionKeyUri rars =
     (case parseSiweMessage env (signedMessage authSig) of
        None \<Rightarrow> Inl SiweParseError
      | Some authSigSiweMessage \<Rightarrow>
          if \<not> siweValidate env authSigSiweMessage (sig authSig) then Inr True
          else if uri authSigSiweMessage \<noteq> sessionKeyUri then Inr True
          else (case resources authSigSiweMessage of
                  None \<Rightarrow> Inr True
                | Some [] \<Rightarrow> Inr True
                | Some (r0 # _) \<Rightarrow>
                    (case decode env r0 of
                       None \<Rightarrow> Inl RecapDecodeError
                     | Some authSigSessionCapabilityObject \<Rightarrow>
                         Inr (capabilitiesDoNotMatch authSigSessionCapabilityObject rars))))"

text \<open>
  The parameters of \<open>#getWalletSig\<close>, with the prefix \<open>ws_\<close>.
\<close>

record GetWalletSigProps =
  ws_authNeededCallback :: "AuthCallback option"
  ws_chain :: string
  ws_sessionCapabilityObject :: ISessionCapabilityObject
  ws_switchChain :: "bool option"
  ws_expiration :: string
  ws_sessionKeyUri :: string
  ws_nonce :: string
  ws_resourceAbilityRequests :: "LitResourceAbilityRequest list option"
  ws_litActionCode :: "string option"
  ws_litActionIpfsId :: "string option"
  ws_jsParams :: "string option"
  ws_sessionKey :: "SessionKeyPair option"

text \<open>
  The object that \<open>#getWalletSig\<close> passes to \<open>authNeededCallback\<close> (flow 1.1);
  \<open>jsParams\<close> is an object, so it is spread whenever it is present.
\<close>

definition authNeededCallbackBody :: "Env \<Rightarrow> GetWalletSigProps \<Rightarrow> AuthCallbackParams" where
  "authNeededCallbackBody env props =
     \<lparr> cb_chain = ws_chain props,
       cb_statement = Some (statement env (ws_sessionCapabilityObject props)),
       cb_resources = Some [encodeAsSiweResource env (ws_sessionCapabilityObject props)],
       cb_switchChain = (if ws_switchChain props = Some True then Some True else None),
       cb_expiration = Some (ws_expiration props),
       cb_uri = Some (ws_sessionKeyUri props),
       cb_sessionKey = ws_sessionKey props,
       cb_nonce = ws_nonce props,
       cb_resourceAbilityRequests = ws_resourceAbilityRequests props,
       cb_litActionCode = spreadIfTruthy (ws_litActionCode props),
       cb_litActionIpfsId = spreadIfTruthy (ws_litActionIpfsId props),
       cb_jsParams = ws_jsParams props \<rparr>"

text \<open>The object that \<open>#getWalletSig\<close> passes to \<open>this.defaultAuthCallback\<close> (flow 1.2.2).\<close>

definition defaultAuthCallbackBody :: "Env \<Rightarrow> GetWalletSigProps \<Rightarrow> AuthCallbackParams" where
  "defaultAuthCallbackBody env props =
     \<lparr> cb_chain = ws_chain props,
       cb_statement = Some (statement env (ws_sessionCapabilityObject props)),
       cb_resources = Some [encodeAsSiweResource env (ws_sessionCapabilityObject props)],
       cb_switchChain = ws_switchChain props,
       cb_expiration = Some (ws_expiration props),
       cb_uri = Some (ws_sessionKeyUri props),
       cb_sessionKey = None,
       cb_nonce = ws_nonce props,
       cb_resourceAbilityRequests = None,
       cb_litActionCode = None,
       cb_litActionIpfsId = None,
       cb_jsParams = None \<rparr>"

text \<open>
  \<open>#getWalletSig\<close>. Flow 1 runs when the read of the store is an error or its result
  is empty (\<open>type === ERROR || !result || result == ''\<close>). The result is \<open>walletSig!\<close>,
  which is \<open>undefined\<close> (\<open>None\<close>) on the path where \<open>JSON.parse\<close> throws and the
  \<open>catch\<close> only warns (flow 2.2).
\<close>

definition getWalletSig ::
  "Env \<Rightarrow> LitNodeClient \<Rightarrow> Storage \<Rightarrow> GetWalletSigProps
     \<Rightarrow> LitError + (string AuthSig option \<times> Storage)" where
  "getWalletSig env client st props =
     (let storageKey = WALLET_SIGNATURE;
          storedWalletSigOrError = getStorageItem st storageKey;
          flow1 =
            (case (case ws_authNeededCallback props of
                     Some authNeededCallback \<Rightarrow>
                       authNeededCallback (authNeededCallbackBody env props)
                   | None \<Rightarrow>
                       (case defaultAuthCallback client of
                          None \<Rightarrow> Inl ParamsMissing
                        | Some dcb \<Rightarrow> dcb (defaultAuthCallbackBody env props))) of
               Inl e \<Rightarrow> Inl e
             | Inr walletSig \<Rightarrow>
                 (case setStorageItem st storageKey (jsonStringifyAuthSig env walletSig) of
                    (_, st1) \<Rightarrow> Inr (Some walletSig, st1)))
      in case storedWalletSigOrError of
           ELeft \<Rightarrow> flow1
         | ERight stored \<Rightarrow>
             if stored = [] then flow1
             else (case jsonParseAuthSig env stored of
                     Some walletSig \<Rightarrow> Inr (Some walletSig, st)
                   | None \<Rightarrow> Inr (None, st)))"

section \<open>The session key\<close>

text \<open>
  \<open>getSessionKey\<close>. \<open>JSON.parse\<close> of the stored value is outside every \<open>try\<close>. The write
  of a fresh key pair is inside one.
\<close>

definition getSessionKey :: "Env \<Rightarrow> Storage \<Rightarrow> LitError + (SessionKeyPair \<times> Storage)" where
  "getSessionKey env st =
     (let storageKey = SESSION_KEY;
          storedSessionKeyOrError = getStorageItem st storageKey;
          generated =
            (let newSessionKey = generateSessionKeyPair env
             in case setStorageItem st storageKey (jsonStringifySessionKey env newSessionKey) of
                  (_, st1) \<Rightarrow> Inr (newSessionKey, st1))
      in case storedSessionKeyOrError of
           ELeft \<Rightarrow> generated
         | ERight stored \<Rightarrow>
             if stored = [] then generated
             else (case jsonParseSessionKey env stored of
                     None \<Rightarrow> Inl JsonSyntaxError
                   | Some k \<Rightarrow> Inr (k, st)))"

definition getSessionKeyUri :: "string \<Rightarrow> string" where
  "getSessionKeyUri pk = LIT_SESSION_KEY_URI @ pk"

text \<open>\<open>getExpiration\<close>: one day after the reading of the clock.\<close>

definition getExpiration :: "Env \<Rightarrow> int \<Rightarrow> string" where
  "getExpiration env now = toISOString env (now + 1000 * 60 * 60 * 24)"

section \<open>\<open>getSessionSigs\<close>\<close>

text \<open>The parameters of \<open>getSessionSigs\<close>, with the prefix \<open>gs_\<close>.\<close>

record GetSessionSigsProps =
  gs_sessionKey :: "SessionKeyPair option"
  gs_sessionCapabilityObject :: "ISessionCapabilityObject option"
  gs_resourceAbilityRequests :: "LitResourceAbilityRequest list"
  gs_expiration :: "string option"
  gs_authNeededCallback :: "AuthCallback option"
  gs_chain :: "string option"
  gs_switchChain :: "bool option"
  gs_litActionCode :: "string option"
  gs_litActionIpfsId :: "string option"
  gs_jsParams :: "string option"
  gs_capabilityAuthSigs :: "string AuthSig list option"
  gs_capacityDelegationAuthSig :: "string AuthSig option"

text \<open>\<open>a || b\<close> on strings and \<open>a ?? b\<close>.\<close>

definition orElse :: "string option \<Rightarrow> string \<Rightarrow> string" where
  "orElse a b = (case a of None \<Rightarrow> b | Some s \<Rightarrow> if s = [] then b else s)"

definition nullishCoalesce :: "'a option \<Rightarrow> 'a \<Rightarrow> 'a" where
  "nullishCoalesce a b = (case a of None \<Rightarrow> b | Some x \<Rightarrow> x)"

text \<open>\<open>params.sessionKey ?? this.getSessionKey()\<close>\<close>

definition sessionKeyOf ::
  "Env \<Rightarrow> Storage \<Rightarrow> GetSessionSigsProps \<Rightarrow> LitError + (SessionKeyPair \<times> Storage)" where
  "sessionKeyOf env st params =
     (case gs_sessionKey params of
        Some k \<Rightarrow> Inr (k, st)
      | None \<Rightarrow> getSessionKey env st)"

text \<open>
  The session capability object of \<open>getSessionSigs\<close>: the caller's, else the one
  generated for the requested resources.
\<close>

definition sessionCapabilityObjectOf :: "GetSessionSigsProps \<Rightarrow> ISessionCapabilityObject" where
  "sessionCapabilityObjectOf params =
     (case gs_sessionCapabilityObject params of
        Some c \<Rightarrow> c
      | None \<Rightarrow>
          generateSessionCapabilityObjectWithWildcards
            (map resource (gs_resourceAbilityRequests params)))"

text \<open>\<open>const expiration = params.expiration || LitNodeClientNodeJs.getExpiration()\<close>\<close>

definition expirationOf :: "Env \<Rightarrow> Clock \<Rightarrow> GetSessionSigsProps \<Rightarrow> string" where
  "expirationOf env clock params =
     orElse (gs_expiration params) (getExpiration env (nowGetExpiration clock))"

text \<open>
  \<open>const sessionExpiration = expiration ?? new Date(Date.now() + 1000 * 60 * 5).toISOString()\<close>,
  where \<open>expiration\<close> is the string above.
\<close>

definition sessionExpirationOf :: "Env \<Rightarrow> Clock \<Rightarrow> GetSessionSigsProps \<Rightarrow> string" where
  "sessionExpirationOf env clock params =
     nullishCoalesce (Some (expirationOf env clock params))
       (toISOString env (nowSessionExpiration clock + 1000 * 60 * 5))"

text \<open>The capability chain of the template.\<close>

definition capabilitiesOf :: "GetSessionSigsProps \<Rightarrow> string AuthSig \<Rightarrow> string AuthSig list" where
  "capabilitiesOf params authSig =
     (case gs_capacityDelegationAuthSig params of
        Some d \<Rightarrow> nullishCoalesce (gs_capabilityAuthSigs params) [] @ [d, authSig]
      | None \<Rightarrow> nullishCoalesce (gs_capabilityAuthSigs params) [] @ [authSig])"

text \<open>\<open>{ ...signingTemplate, nodeAddress }\<close>\<close>

definition toSign ::
  "Env \<Rightarrow> Clock \<Rightarrow> GetSessionSigsProps \<Rightarrow> SessionKeyPair \<Rightarrow> string AuthSig \<Rightarrow> string
     \<Rightarrow> SessionSigningTemplate" where
  "toSign env clock params sk authSig node =
     \<lparr> sessionKey = publicKey sk,
       resourceAbilityRequests = gs_resourceAbilityRequests params,
       capabilities = capabilitiesOf params authSig,
       issuedAt = toISOString env (nowIssuedAt clock),
       expiration = sessionExpirationOf env clock params,
       nodeAddress = node \<rparr>"

text \<open>The body of \<open>this.connectedNodes.forEach\<close>: the entry written for one node.\<close>

definition sessionSigFor ::
  "Env \<Rightarrow> Clock \<Rightarrow> GetSessionSigsProps \<Rightarrow> SessionKeyPair \<Rightarrow> string AuthSig \<Rightarrow> string
     \<Rightarrow> SessionSig" where
  "sessionSigFor env clock params sk authSig node =
     (let signedMessage = toSign env clock params sk authSig node
      in \<lparr> sig = naclSignDetached env signedMessage (secretKey sk),
           derivedVia = ''litSessionSignViaNacl'',
           signedMessage = signedMessage,
           address = publicKey sk,
           algo = Some ''ed25519'' \<rparr>)"

definition signatures ::
  "Env \<Rightarrow> Clock \<Rightarrow> GetSessionSigsProps \<Rightarrow> SessionKeyPair \<Rightarrow> string AuthSig \<Rightarrow> string list
     \<Rightarrow> SessionSigsMap" where
  "signatures env clock params sk authSig nodes =
     foldl (\<lambda>m node. m(node \<mapsto> sessionSigFor env clock params sk authSig node))
       Map.empty nodes"

text \<open>
  \<open>getSessionSigs\<close>. A wallet signature that is \<open>undefined\<close> makes the read of
  \<open>authSig.signedMessage\<close> in the re-sign check a TypeError.
\<close>

definition getSessionSigs ::
  "Env \<Rightarrow> LitNodeClient \<Rightarrow> Clock \<Rightarrow> Storage \<Rightarrow> GetSessionSigsProps
     \<Rightarrow> LitError + (SessionSigsMap \<times> Storage)" where
  "getSessionSigs env client clock st params =
     (case sessionKeyOf env st params of
        Inl e \<Rightarrow> Inl e
      | Inr (sk, st1) \<Rightarrow>
          (let sessionKeyUri = getSessionKeyUri (publicKey sk);
               sessionCapabilityObject = sessionCapabilityObjectOf params;
               expiration = expirationOf env clock params
           in if \<not> truthy (latestBlockhash client) then Inl InvalidEthBlockhash
              else
                (let nonce = nullishCoalesce (latestBlockhash client) []
                 in case getWalletSig env client st1
                           \<lparr> ws_authNeededCallback = gs_authNeededCallback params,
                             ws_chain = orElse (gs_chain params) ''ethereum'',
                             ws_sessionCapabilityObject = sessionCapabilityObject,
                             ws_switchChain = gs_switchChain params,
                             ws_expiration = expiration,
                             ws_sessionKeyUri = sessionKeyUri,
                             ws_nonce = nonce,
                             ws_resourceAbilityRequests = Some (gs_resourceAbilityRequests params),
                             ws_litActionCode = spreadIfTruthy (gs_litActionCode params),
                             ws_litActionIpfsId = spreadIfTruthy (gs_litActionIpfsId params),
                             ws_jsParams = gs_jsParams params,
                             ws_sessionKey = Some sk \<rparr> of
                      Inl e \<Rightarrow> Inl e
                    | Inr (None, st2) \<Rightarrow> Inl TypeError
                    | Inr (Some walletSig, st2) \<Rightarrow>
                        (case checkNeedToResignSessionKey env walletSig sessionKeyUri
                                (gs_resourceAbilityRequests params) of
                           Inl e \<Rightarrow> Inl e
                         | Inr needToResignSessionKey \<Rightarrow>
                             (case (if needToResignSessionKey then
                                      authCallbackAndUpdateStorageItem env client st2
                                        \<lparr> cb_chain = orElse (gs_chain params) ''ethereum'',
                                          cb_statement =
                                            Some (statement env sessionCapabilityObject),
                                          cb_resources =
                                            Some [encodeAsSiweResource env sessionCapabilityObject],
                                          cb_switchChain = gs_switchChain params,
                                          cb_expiration = Some expiration,
                                          cb_uri = Some sessionKeyUri,
                                          cb_sessionKey = Some sk,
                                          cb_nonce = nonce,
                                          cb_resourceAbilityRequests =
                                            Some (gs_resourceAbilityRequests params),
                                          cb_litActionCode =
                                            spreadIfTruthy (gs_litActionCode params),
                                          cb_litActionIpfsId =
                                            spreadIfTruthy (gs_litActionIpfsId params),
                                          cb_jsParams = gs_jsParams params \<rparr>
                                        (gs_authNeededCallback params)
                                    else Inr (walletSig, st2)) of
                                Inl e \<Rightarrow> Inl e
                              | Inr (authSig, st3) \<Rightarrow>
                                  if address authSig = [] \<or> derivedVia authSig = []
                                     \<or> sig authSig = [] \<or> signedMessage authSig = []
                                  then Inl WalletSignatureNotFound
                                  else Inr (signatures env clock params sk authSig
                                              (connectedNodes client), st3))))))"

section \<open>\<open>runOnTargetedNodes\<close>\<close>

text \<open>The decimal digits of a counter, as the template literal writes them.\<close>

definition digit :: "nat \<Rightarrow> char" where
  "digit d = ''0123456789'' ! d"

function decimal :: "nat \<Rightarrow> string" where
  "decimal n = (if n < 10 then [digit n] else decimal (n div 10) @ [digit (n mod 10)])"
  by pat_completeness auto
termination
  by (relation "measure id") auto

declare decimal.simps [simp del]

text \<open>The parameters \<open>JsonExecutionSdkParamsTargetNode\<close>; \<open>targetNodeRange\<close> absent is 0.\<close>

record JsonExecutionSdkParamsTargetNode =
  code :: "string option"
  ipfsId :: "string option"
  jsParams :: "string option"
  sessionSigs :: SessionSigsMap
  targetNodeRange :: nat

text \<open>The request body \<open>JsonExecutionRequestTargetNode\<close>: the parameters and \<open>authSig\<close>.\<close>

record JsonExecutionRequestTargetNode = JsonExecutionSdkParamsTargetNode +
  authSig :: SessionSig

text \<open>What \<open>_sendCommandToNode\<close> is given as \<open>data\<close>.\<close>

datatype CommandData =
    SdkParams JsonExecutionSdkParamsTargetNode
  | RequestBody JsonExecutionRequestTargetNode

record NodeCommand =
  url :: string
  data :: CommandData
  requestId :: string

text \<open>The property \<open>authSig\<close> of the transmitted data.\<close>

fun authSigOfData :: "CommandData \<Rightarrow> SessionSig option" where
  "authSigOfData (SdkParams p) = None"
| "authSigOfData (RequestBody r) = Some (authSig r)"

text \<open>
  Modelled from the spec: \<open>_getSessionSigByUrl\<close> of the core package is not among the
  sources. Every outbound request carries \<open>sessionSigs[url]\<close>; if absent, the call fails
  with \<open>WalletSignatureNotFound\<close>.
\<close>

definition getSessionSigByUrl :: "SessionSigsMap \<Rightarrow> string \<Rightarrow> LitError + SessionSig" where
  "getSessionSigByUrl sigs u =
     (case sigs u of None \<Rightarrow> Inl WalletSignatureNotFound | Some s \<Rightarrow> Inr s)"

text \<open>
  The \<open>while\<close> loop that selects the node indexes. \<open>BigNumber.mod\<close> throws on a zero
  divisor. A run that never collects \<open>targetNodeRange\<close> indexes does not return: \<open>None\<close>.
\<close>

partial_function (option) selectNodeIndexes ::
  "Env \<Rightarrow> string \<Rightarrow> nat \<Rightarrow> nat \<Rightarrow> nat list \<Rightarrow> nat \<Rightarrow> (LitError + nat list) option" where
  "selectNodeIndexes env ipfs urlCount targetRange randomSelectedNodeIndexes nodeCounter =
     (if length randomSelectedNodeIndexes < targetRange then
        (if urlCount = 0 then Some (Inl NumericFault)
         else
           (let str = decimal nodeCounter @ '':'' @ ipfs;
                hashAsNumber = sha256 env str;
                nodeIndex = hashAsNumber mod urlCount
            in selectNodeIndexes env ipfs urlCount targetRange
                 (if nodeIndex \<notin> set randomSelectedNodeIndexes \<and> nodeIndex < urlCount
                  then randomSelectedNodeIndexes @ [nodeIndex]
                  else randomSelectedNodeIndexes)
                 (nodeCounter + 1)))
      else Some (Inr randomSelectedNodeIndexes))"

text \<open>
  The \<open>for\<close> loop of \<open>wrapper\<close>: one command per selected index. \<open>reqBody\<close> is composed
  and \<open>_sendCommandToNode\<close> is called with \<open>data: params\<close>. An index outside
  \<open>bootstrapUrls\<close> gives the url \<open>undefined\<close>, for which no session signature is found
  (the loop above selects no such index).
\<close>

fun wrapper ::
  "LitNodeClient \<Rightarrow> JsonExecutionSdkParamsTargetNode \<Rightarrow> string \<Rightarrow> nat list
     \<Rightarrow> LitError + NodeCommand list" where
  "wrapper client params ident [] = Inr []"
| "wrapper client params ident (nodeIndex # rest) =
     (if nodeIndex < length (bootstrapUrls client) then
        (let u = bootstrapUrls client ! nodeIndex
         in case getSessionSigByUrl (sessionSigs params) u of
              Inl e \<Rightarrow> Inl e
            | Inr sessionSig \<Rightarrow>
                (let reqBody =
                       \<lparr> code = code params, ipfsId = ipfsId params, jsParams = jsParams params,
                         sessionSigs = sessionSigs params,
                         targetNodeRange = targetNodeRange params,
                         authSig = sessionSig \<rparr>;
                     singleNodePromise =
                       \<lparr> url = u, data = SdkParams params, requestId = ident \<rparr>
                 in case wrapper client params ident rest of
                      Inl e \<Rightarrow> Inl e
                    | Inr nodePromises \<Rightarrow> Inr (singleNodePromise # nodePromises)))
      else Inl WalletSignatureNotFound)"

text \<open>
  \<open>runOnTargetedNodes\<close> up to the commands that one run of \<open>wrapper\<close> sends, for the
  request id \<open>ident\<close> that \<open>executeWithRetry\<close> supplies.
\<close>

definition runOnTargetedNodes ::
  "Env \<Rightarrow> LitNodeClient \<Rightarrow> JsonExecutionSdkParamsTargetNode \<Rightarrow> string
     \<Rightarrow> (LitError + NodeCommand list) option" where
  "runOnTargetedNodes env client params ident =
     (if targetNodeRange params = 0 then Some (Inl InvalidParamType)
      else
        (case getIpfsId env (code params) (sessionSigs params) of
           Inl e \<Rightarrow> Some (Inl e)
         | Inr ipfs \<Rightarrow>
             (case selectNodeIndexes env ipfs (length (bootstrapUrls client))
                     (targetNodeRange params) [] 0 of
                None \<Rightarrow> None
              | Some (Inl e) \<Rightarrow> Some (Inl e)
              | Some (Inr randomSelectedNodeIndexes) \<Rightarrow>
                  Some (wrapper client params ident randomSelectedNodeIndexes))))"

text \<open>
  The selection as the specification words it: the candidate index for the counter \<open>c\<close>
  is the digest of \<open>str(c) + ":" + ipfsId\<close> modulo the number of urls; an index is kept if
  unseen; the selection is the first \<open>k\<close> kept indexes, here among the candidates of the
  counters below \<open>m\<close>.
\<close>

definition candidate :: "Env \<Rightarrow> string \<Rightarrow> nat \<Rightarrow> nat \<Rightarrow> nat" where
  "candidate env ipfs urlCount c = sha256 env (decimal c @ '':'' @ ipfs) mod urlCount"

fun keepUnseen :: "nat list \<Rightarrow> nat list" where
  "keepUnseen [] = []"
| "keepUnseen (x # xs) = x # filter (\<lambda>y. y \<noteq> x) (keepUnseen xs)"

definition specifiedSelection :: "Env \<Rightarrow> string \<Rightarrow> nat \<Rightarrow> nat \<Rightarrow> nat \<Rightarrow> nat list" where
  "specifiedSelection env ipfs urlCount k m =
     take k (keepUnseen (map (candidate env ipfs urlCount) [0..<m]))"

section \<open>\<open>signSessionKey\<close>: from the node responses to the AuthSig\<close>

text \<open>
  The node response \<open>BlsResponseData\<close>. A property that the node did not send is
  \<open>None\<close> (JavaScript \<open>undefined\<close>).
\<close>

record SignatureShare =
  ProofOfPossession :: "string option"

record BlsResponseData =
  dataSigned :: "string option"
  result :: "bool option"
  signatureShare :: "SignatureShare option"
  shareIndex :: "nat option"
  curveType :: "string option"
  siweMessage :: "string option"
  blsRootPubkey :: "string option"

definition requiredFields :: "string list" where
  "requiredFields =
     [''signatureShare'', ''curveType'', ''shareIndex'', ''siweMessage'',
      ''dataSigned'', ''blsRootPubkey'', ''result'']"

text \<open>
  The test \<open>!x || x === ''\<close> on a string, a number, a boolean and an object. It holds
  of an absent value, and also of the empty string, of the number 0 and of \<open>false\<close>.
\<close>

definition emptyString :: "string option \<Rightarrow> bool" where
  "emptyString x = (case x of None \<Rightarrow> True | Some s \<Rightarrow> s = [])"

definition emptyNumber :: "nat option \<Rightarrow> bool" where
  "emptyNumber x = (case x of None \<Rightarrow> True | Some n \<Rightarrow> n = 0)"

definition emptyBoolean :: "bool option \<Rightarrow> bool" where
  "emptyBoolean x = (case x of None \<Rightarrow> True | Some b \<Rightarrow> \<not> b)"

definition emptyObject :: "'a option \<Rightarrow> bool" where
  "emptyObject x = (case x of None \<Rightarrow> True | Some _ \<Rightarrow> False)"

text \<open>\<open>!data[key] || data[key] === ''\<close> for a key of \<open>requiredFields\<close>.\<close>

definition fieldEmpty :: "BlsResponseData \<Rightarrow> string \<Rightarrow> bool" where
  "fieldEmpty d key =
     (if key = ''signatureShare'' then emptyObject (signatureShare d)
      else if key = ''curveType'' then emptyString (curveType d)
      else if key = ''shareIndex'' then emptyNumber (shareIndex d)
      else if key = ''siweMessage'' then emptyString (siweMessage d)
      else if key = ''dataSigned'' then emptyString (dataSigned d)
      else if key = ''blsRootPubkey'' then emptyString (blsRootPubkey d)
      else if key = ''result'' then emptyBoolean (result d)
      else True)"

text \<open>\<open>!data.signatureShare.ProofOfPossession\<close>\<close>

definition noProofOfPossession :: "BlsResponseData \<Rightarrow> bool" where
  "noProofOfPossession d =
     (case signatureShare d of
        None \<Rightarrow> True
      | Some s \<Rightarrow> emptyString (ProofOfPossession s))"

text \<open>
  The callback of \<open>responseData.map\<close>: \<open>Inr None\<close> is \<open>return null\<close>,
  \<open>Inl\<close> is the \<open>throw\<close>.
\<close>

definition validateSignedData :: "BlsResponseData \<Rightarrow> LitError + BlsResponseData option" where
  "validateSignedData d =
     (if list_ex (fieldEmpty d) requiredFields then Inr None
      else if noProofOfPossession d then Inl ProofOfPossessionMissing
      else Inr (Some d))"

fun mapValidate :: "BlsResponseData list \<Rightarrow> LitError + BlsResponseData option list" where
  "mapValidate [] = Inr []"
| "mapValidate (d # ds) =
     (case validateSignedData d of
        Inl e \<Rightarrow> Inl e
      | Inr r \<Rightarrow> (case mapValidate ds of Inl e \<Rightarrow> Inl e | Inr rs \<Rightarrow> Inr (r # rs)))"

text \<open>\<open>.filter((item) => item !== null)\<close>\<close>

fun filterNotNull :: "'a option list \<Rightarrow> 'a list" where
  "filterNotNull [] = []"
| "filterNotNull (None # xs) = filterNotNull xs"
| "filterNotNull (Some x # xs) = x # filterNotNull xs"

text \<open>\<open>const validatedSignedDataList = responseData.map(...).filter(...)\<close>\<close>

definition validatedSignedDataList :: "BlsResponseData list \<Rightarrow> LitError + BlsResponseData list" where
  "validatedSignedDataList responseData =
     (case mapValidate responseData of
        Inl e \<Rightarrow> Inl e
      | Inr rs \<Rightarrow> Inr (filterNotNull rs))"

text \<open>
  The libraries that \<open>signSessionKey\<close> calls on the validated shares, as parameters;
  those that can throw return a sum.
  \<^item> \<open>mostCommonString\<close>, \<open>removeHexPrefix\<close>, \<open>hexPrefixed\<close>, \<open>normalizeAndStringify\<close>: of
    the misc package.
  \<^item> \<open>getBlsSignatures\<close>: the helper of that name.
  \<^item> \<open>jsonStringifyShare\<close>, \<open>jsonStringifyProof\<close>: \<open>JSON.stringify\<close> of a share and of
    \<open>{ ProofOfPossession: signature }\<close>.
  \<^item> \<open>combine_signature_shares\<close>: of the BLS library.
  \<^item> \<open>computeAddress\<close>: of the transactions library.
\<close>

record BlsEnv =
  mostCommonString :: "string option list \<Rightarrow> string"
  getBlsSignatures :: "BlsResponseData list \<Rightarrow> LitError + SignatureShare list"
  jsonStringifyShare :: "SignatureShare \<Rightarrow> string"
  combine_signature_shares :: "string list \<Rightarrow> LitError + string"
  removeHexPrefix :: "string \<Rightarrow> string"
  hexPrefixed :: "string \<Rightarrow> string"
  computeAddress :: "string \<Rightarrow> LitError + string"
  normalizeAndStringify :: "string \<Rightarrow> string"
  jsonStringifyProof :: "string \<Rightarrow> string"

text \<open>\<open>SignSessionKeyResponse\<close>, its fields with the prefix \<open>ssk_\<close>.\<close>

record SignSessionKeyResponse =
  ssk_authSig :: "string AuthSig"
  ssk_pkpPublicKey :: string

text \<open>
  \<open>signSessionKey\<close> after the share-count test: the shares are combined and the AuthSig
  is built from \<open>blsSignedData\<close>.
\<close>

definition combineValidatedShares ::
  "BlsEnv \<Rightarrow> string \<Rightarrow> BlsResponseData list \<Rightarrow> LitError + SignSessionKeyResponse" where
  "combineValidatedShares env pkpPublicKey blsSignedData =
     (let sigType = mostCommonString env (map curveType blsSignedData)
      in case getBlsSignatures env blsSignedData of
           Inl e \<Rightarrow> Inl e
         | Inr signatureShares \<Rightarrow>
             (case combine_signature_shares env
                     (map (jsonStringifyShare env) signatureShares) of
                Inl e \<Rightarrow> Inl e
              | Inr blsCombinedSignature \<Rightarrow>
                  (let publicKey = removeHexPrefix env pkpPublicKey;
                       dataSignedMostCommon =
                         mostCommonString env (map dataSigned blsSignedData);
                       mostCommonSiweMessage =
                         mostCommonString env (map siweMessage blsSignedData);
                       signedMessageText = normalizeAndStringify env mostCommonSiweMessage
                   in case computeAddress env (hexPrefixed env publicKey) of
                        Inl e \<Rightarrow> Inl e
                      | Inr addr \<Rightarrow>
                          Inr \<lparr> ssk_authSig =
                                  \<lparr> sig = jsonStringifyProof env blsCombinedSignature,
                                    derivedVia = ''lit.bls'',
                                    signedMessage = signedMessageText,
                                    address = addr,
                                    algo = Some ''LIT_BLS'' \<rparr>,
                                ssk_pkpPublicKey = publicKey \<rparr>)))"

text \<open>
  \<open>signSessionKey\<close> from the node responses on: \<open>responseData\<close> is \<open>res.values\<close> of the
  successful node promises, \<open>pkpPublicKey\<close> is \<open>params.pkpPublicKey\<close> (hex-prefixed
  earlier in the method) and \<open>minNodeCount\<close> is \<open>this.config.minNodeCount\<close>. The method
  throws on an empty \<open>signedDataList\<close>, in the validation of a response, on too few
  validated shares, and where a library call on the validated shares throws.
\<close>

definition signSessionKey ::
  "BlsEnv \<Rightarrow> nat \<Rightarrow> string \<Rightarrow> BlsResponseData list \<Rightarrow> LitError + SignSessionKeyResponse" where
  "signSessionKey env minNodeCount pkpPublicKey responseData =
     (let signedDataList = map dataSigned responseData
      in if length signedDataList \<le> 0 then Inl SignedDataListEmpty
         else
           (case validatedSignedDataList responseData of
              Inl e \<Rightarrow> Inl e
            | Inr validated \<Rightarrow>
                if length validated < minNodeCount then Inl NotEnoughNodes
                else combineValidatedShares env pkpPublicKey validated))"

text \<open>
  The words of the claim on a response. A required field is missing when the node did
  not send it or sent the empty string; \<open>hasEveryRequiredField\<close> holds of a response with
  none of the seven missing.
\<close>

definition present :: "'a option \<Rightarrow> bool" where
  "present x = (case x of None \<Rightarrow> False | Some _ \<Rightarrow> True)"

definition hasEveryRequiredField :: "BlsResponseData \<Rightarrow> bool" where
  "hasEveryRequiredField d =
     (present (signatureShare d) \<and> truthy (curveType d) \<and> present (shareIndex d)
      \<and> truthy (siweMessage d) \<and> truthy (dataSigned d) \<and> truthy (blsRootPubkey d)
      \<and> present (result d))"

text \<open>
  A response in which no required field is present and yet falsy for JavaScript:
  its \<open>shareIndex\<close>, if sent, is not 0 and its \<open>result\<close>, if sent, is not \<open>false\<close>.
\<close>

definition noFalsyNumberOrBoolean :: "BlsResponseData \<Rightarrow> bool" where
  "noFalsyNumberOrBoolean d = (shareIndex d \<noteq> Some 0 \<and> result d \<noteq> Some False)"

text \<open>A response with every required field and a proof of possession.\<close>

definition isValidShare :: "BlsResponseData \<Rightarrow> bool" where
  "isValidShare d = (hasEveryRequiredField d \<and> \<not> noProofOfPossession d)"

text \<open>Responses and library parameters used below.\<close>

definition goodShare :: "nat \<Rightarrow> BlsResponseData" where
  "goodShare i =
     \<lparr> dataSigned = Some ''d'', result = Some True,
       signatureShare = Some \<lparr> ProofOfPossession = Some ''ab'' \<rparr>,
       shareIndex = Some i, curveType = Some ''BLS'', siweMessage = Some ''m'',
       blsRootPubkey = Some ''pk'' \<rparr>"

definition shareWithoutProof :: "nat \<Rightarrow> BlsResponseData" where
  "shareWithoutProof i = (goodShare i) \<lparr> signatureShare := Some \<lparr> ProofOfPossession = None \<rparr> \<rparr>"

definition shareWithoutSiwe :: "nat \<Rightarrow> BlsResponseData" where
  "shareWithoutSiwe i = (goodShare i) \<lparr> siweMessage := None \<rparr>"

definition demoBlsEnv :: BlsEnv where
  "demoBlsEnv =
     \<lparr> mostCommonString = (\<lambda>xs. case xs of Some s # _ \<Rightarrow> s | _ \<Rightarrow> []),
       getBlsSignatures =
         (\<lambda>ds. Inr (map (\<lambda>d. case signatureShare d of
                                 Some s \<Rightarrow> s
                               | None \<Rightarrow> \<lparr> ProofOfPossession = None \<rparr>) ds)),
       jsonStringifyShare = (\<lambda>s. case ProofOfPossession s of Some p \<Rightarrow> p | None \<Rightarrow> []),
       combine_signature_shares = (\<lambda>xs. Inr (concat xs)),
       removeHexPrefix = (\<lambda>s. drop 2 s),
       hexPrefixed = (\<lambda>s. ''0x'' @ s),
       computeAddress = (\<lambda>s. Inr (take 6 s)),
       normalizeAndStringify = (\<lambda>s. s),
       jsonStringifyProof = (\<lambda>s. s) \<rparr>"

section \<open>Concrete inputs\<close>

text \<open>
  A small instance of the collaborators and of the client, on which the functions above
  are evaluated below.
\<close>

definition demoKey :: SessionKeyPair where
  "demoKey = \<lparr> publicKey = ''ab12'', secretKey = ''cd34'' \<rparr>"

definition demoWalletSig :: "string AuthSig" where
  "demoWalletSig =
     \<lparr> sig = ''0xsig'', derivedVia = ''web3.eth.personal.sign'',
       signedMessage = ''siwe for ab12'', address = ''0xA1'', algo = None \<rparr>"

definition demoPkp :: ILitResource where
  "demoPkp = LitResource ''lit-pkp'' ''*''"

definition demoRequests :: "LitResourceAbilityRequest list" where
  "demoRequests = [\<lparr> resource = demoPkp, ability = PKPSigning \<rparr>]"

definition demoSiwe :: SiweMessage where
  "demoSiwe = \<lparr> uri = ''lit:session:ab12'', resources = Some [''urn:recap:pkp''] \<rparr>"

definition demoEnv :: Env where
  "demoEnv =
     \<lparr> parseSiweMessage = (\<lambda>s. if s = ''siwe for ab12'' then Some demoSiwe else None),
       siweValidate = (\<lambda>m s. s = ''0xsig''),
       decode = (\<lambda>r. if r = ''urn:recap:pkp'' then Some [(''lit-pkp://*'', AnyAbility)]
                      else if r = ''urn:recap:none'' then Some []
                      else None),
       encodeAsSiweResource = (\<lambda>c. if c = [] then ''urn:recap:none'' else ''urn:recap:pkp''),
       statement = (\<lambda>c. ''statement''),
       jsonParseAuthSig = (\<lambda>s. if s = ''{wallet}'' then Some demoWalletSig else None),
       jsonParseSessionKey = (\<lambda>s. if s = ''{key}'' then Some demoKey else None),
       jsonStringifyAuthSig = (\<lambda>a. ''{wallet}''),
       jsonStringifySessionKey = (\<lambda>k. ''{key}''),
       generateSessionKeyPair = demoKey,
       naclSignDetached = (\<lambda>t k. k @ nodeAddress t),
       toISOString = (\<lambda>ms. decimal (nat ms)),
       sha256 = (\<lambda>s. case s of [] \<Rightarrow> 0 | c # _ \<Rightarrow> of_char c),
       getIpfsId = (\<lambda>c s. Inr ''Qm'') \<rparr>"

definition demoCallback :: AuthCallback where
  "demoCallback = (\<lambda>p. Inr demoWalletSig)"

definition demoClient :: LitNodeClient where
  "demoClient =
     \<lparr> defaultAuthCallback = None, latestBlockhash = Some ''0xblock'',
       connectedNodes = [''https://n1'', ''https://n2''],
       bootstrapUrls = [''https://n1'', ''https://n2'', ''https://n3''] \<rparr>"

definition demoClock :: Clock where
  "demoClock = \<lparr> nowGetExpiration = 1000, nowSessionExpiration = 1000, nowIssuedAt = 1000 \<rparr>"

definition emptyStorage :: Storage where
  "emptyStorage = \<lparr> items = Map.empty, readFails = False, writeFails = False \<rparr>"

text \<open>A store whose two slots hold text that is not JSON.\<close>

definition corruptStorage :: Storage where
  "corruptStorage =
     \<lparr> items = [WALLET_SIGNATURE \<mapsto> ''{wallet'', SESSION_KEY \<mapsto> ''{key''],
       readFails = False, writeFails = False \<rparr>"

definition demoParams :: GetSessionSigsProps where
  "demoParams =
     \<lparr> gs_sessionKey = None, gs_sessionCapabilityObject = None,
       gs_resourceAbilityRequests = demoRequests, gs_expiration = None,
       gs_authNeededCallback = Some demoCallback, gs_chain = None, gs_switchChain = None,
       gs_litActionCode = None, gs_litActionIpfsId = None, gs_jsParams = None,
       gs_capabilityAuthSigs = None, gs_capacityDelegationAuthSig = None \<rparr>"

definition demoWalletProps :: GetWalletSigProps where
  "demoWalletProps =
     \<lparr> ws_authNeededCallback = Some demoCallback, ws_chain = ''ethereum'',
       ws_sessionCapabilityObject = [], ws_switchChain = None,
       ws_expiration = ''2030-01-01T00:00:00.000Z'', ws_sessionKeyUri = ''lit:session:ab12'',
       ws_nonce = ''0xblock'', ws_resourceAbilityRequests = Some demoRequests,
       ws_litActionCode = None, ws_litActionIpfsId = None, ws_jsParams = None,
       ws_sessionKey = Some demoKey \<rparr>"

definition demoSessionSig :: "string \<Rightarrow> SessionSig" where
  "demoSessionSig node = sessionSigFor demoEnv demoClock demoParams demoKey demoWalletSig node"

definition demoExecParams :: JsonExecutionSdkParamsTargetNode where
  "demoExecParams =
     \<lparr> code = Some ''X'', ipfsId = None, jsParams = None,
       sessionSigs =
         [''https://n1'' \<mapsto> demoSessionSig ''https://n1'',
          ''https://n2'' \<mapsto> demoSessionSig ''https://n2'',
          ''https://n3'' \<mapsto> demoSessionSig ''https://n3''],
       targetNodeRange = 2 \<rparr>"

text \<open>The result of \<open>getSessionSigs\<close> on the empty store, for the inputs above.\<close>

definition demoSigs :: SessionSigsMap where
  "demoSigs =
     signatures demoEnv demoClock demoParams demoKey demoWalletSig (connectedNodes demoClient)"

definition demoStorageAfter :: Storage where
  "demoStorageAfter =
     \<lparr> items = [SESSION_KEY \<mapsto> ''{key}'', WALLET_SIGNATURE \<mapsto> ''{wallet}''],
       readFails = False, writeFails = False \<rparr>"

section \<open>Auxiliary lemmas\<close>

subsection \<open>Lemmas on share validation\<close>

lemma mapValidate_Inr:
  "mapValidate ds = Inr rs \<Longrightarrow>
     filterNotNull rs = filter (\<lambda>d. \<not> list_ex (fieldEmpty d) requiredFields) ds \<and>
     (\<forall>d \<in> set ds. \<not> list_ex (fieldEmpty d) requiredFields \<longrightarrow> \<not> noProofOfPossession d)"
  by (induction ds arbitrary: rs)
     (auto simp: validateSignedData_def split: sum.splits if_splits)

lemma mapValidate_Inl:
  "mapValidate ds = Inl e \<Longrightarrow>
     e = ProofOfPossessionMissing \<and>
     (\<exists>d \<in> set ds. \<not> list_ex (fieldEmpty d) requiredFields \<and> noProofOfPossession d)"
  by (induction ds)
     (auto simp: validateSignedData_def split: sum.splits if_splits)

lemma field_test_of_missing:
  "\<not> hasEveryRequiredField d \<Longrightarrow> list_ex (fieldEmpty d) requiredFields"
  by (auto simp: hasEveryRequiredField_def requiredFields_def fieldEmpty_def present_def
      truthy_def emptyString_def emptyNumber_def emptyBoolean_def emptyObject_def
      split: option.splits)

lemma field_test_iff:
  "noFalsyNumberOrBoolean d \<Longrightarrow>
     list_ex (fieldEmpty d) requiredFields \<longleftrightarrow> \<not> hasEveryRequiredField d"
  by (auto simp: noFalsyNumberOrBoolean_def hasEveryRequiredField_def requiredFields_def
      fieldEmpty_def present_def truthy_def emptyString_def emptyNumber_def
      emptyBoolean_def emptyObject_def split: option.splits)

lemma filter_field_test:
  "\<forall>d \<in> set ds. noFalsyNumberOrBoolean d \<Longrightarrow>
     filter (\<lambda>d. \<not> list_ex (fieldEmpty d) requiredFields) ds = filter hasEveryRequiredField ds"
  by (rule filter_cong) (auto simp: field_test_iff)

subsection \<open>Lemmas on the persisted slots\<close>

text \<open>
  An absent or empty value is tolerated in both slots: \<open>getSessionKey\<close> returns a
  freshly generated key pair, \<open>#getWalletSig\<close> the AuthSig of the auth callback; the
  write of the new value is attempted and its failure is ignored.
\<close>

lemma absent_values_tolerated:
  "((getStorageItem st SESSION_KEY = ELeft \<or> getStorageItem st SESSION_KEY = ERight []) \<longrightarrow>
      getSessionKey env st =
        Inr (generateSessionKeyPair env,
             snd (setStorageItem st SESSION_KEY
                    (jsonStringifySessionKey env (generateSessionKeyPair env)))))
   \<and> ((getStorageItem st WALLET_SIGNATURE = ELeft
        \<or> getStorageItem st WALLET_SIGNATURE = ERight []) \<longrightarrow>
        (\<forall>cb a. ws_authNeededCallback props = Some cb
                 \<and> cb (authNeededCallbackBody env props) = Inr a \<longrightarrow>
           getWalletSig env client st props =
             Inr (Some a, snd (setStorageItem st WALLET_SIGNATURE (jsonStringifyAuthSig env a))))
        \<and> (\<forall>dcb a. ws_authNeededCallback props = None \<and> defaultAuthCallback client = Some dcb
                 \<and> dcb (defaultAuthCallbackBody env props) = Inr a \<longrightarrow>
           getWalletSig env client st props =
             Inr (Some a, snd (setStorageItem st WALLET_SIGNATURE (jsonStringifyAuthSig env a)))))"
  by (auto simp: getSessionKey_def getWalletSig_def Let_def split: prod.splits)

subsection \<open>Lemmas on the re-sign check and the capability object\<close>

lemma capabilitiesDoNotMatch_iff:
  "capabilitiesDoNotMatch c rars \<longleftrightarrow>
     (\<exists>r \<in> set rars. \<not> verifyCapabilitiesForResource c (resource r) (ability r))"
  by (induction rars) auto

lemma set_foldl_addAll:
  "set (foldl addAllCapabilitiesForResource c rs) =
     set c \<union> (\<lambda>r. (getResourceKey r, AnyAbility)) ` set rs"
  by (induction rs arbitrary: c) (auto simp: addAllCapabilitiesForResource_def addGrant_def)

subsection \<open>Lemmas on the selection loop\<close>

lemma set_keepUnseen: "set (keepUnseen xs) = set xs"
  by (induction xs) auto

lemma distinct_keepUnseen: "distinct (keepUnseen xs)"
  by (induction xs) (auto simp: set_keepUnseen)

lemma length_keepUnseen: "length (keepUnseen xs) = card (set xs)"
  using distinct_card [OF distinct_keepUnseen [of xs]] by (simp add: set_keepUnseen)

lemma filter_seen_absorb:
  "x \<in> set seen \<Longrightarrow>
     filter (\<lambda>i. i \<notin> set seen) (filter (\<lambda>y. y \<noteq> x) ys) = filter (\<lambda>i. i \<notin> set seen) ys"
  by (induction ys) auto

lemma filter_seen_snoc:
  "filter (\<lambda>i. i \<notin> set seen) (filter (\<lambda>y. y \<noteq> x) ys) = filter (\<lambda>i. i \<notin> set (seen @ [x])) ys"
  by (induction ys) auto

lemma selectNodeIndexes_from:
  assumes "0 < urlCount"
    and "length seen \<le> k"
    and "k \<le> length seen
           + length (filter (\<lambda>i. i \<notin> set seen)
                       (keepUnseen (map (candidate env ipfs urlCount) [c..<m])))"
  shows "selectNodeIndexes env ipfs urlCount k seen c =
           Some (Inr (seen @ take (k - length seen)
                        (filter (\<lambda>i. i \<notin> set seen)
                           (keepUnseen (map (candidate env ipfs urlCount) [c..<m])))))"
  using assms
proof (induction "m - c" arbitrary: seen c)
  case 0
  then have "length seen = k" by simp
  then show ?case by (subst selectNodeIndexes.simps) simp
next
  case (Suc d)
  show ?case
  proof (cases "length seen < k")
    case False
    with Suc.prems have "length seen = k" by simp
    then show ?thesis by (subst selectNodeIndexes.simps) simp
  next
    case True
    from Suc.hyps have cm: "c < m" and d: "d = m - Suc c" by simp_all
    let ?x = "candidate env ipfs urlCount c"
    let ?rest = "keepUnseen (map (candidate env ipfs urlCount) [Suc c..<m])"
    have upt: "[c..<m] = c # [Suc c..<m]" using cm by (simp add: upt_conv_Cons)
    have xlt: "?x < urlCount" using Suc.prems(1) by (simp add: candidate_def)
    show ?thesis
    proof (cases "?x \<in> set seen")
      case inSeen: True
      have eq: "filter (\<lambda>i. i \<notin> set seen) (keepUnseen (map (candidate env ipfs urlCount) [c..<m]))
                  = filter (\<lambda>i. i \<notin> set seen) ?rest"
        using inSeen by (simp add: upt filter_seen_absorb del: filter_filter)
      have "selectNodeIndexes env ipfs urlCount k seen (Suc c) =
              Some (Inr (seen @ take (k - length seen) (filter (\<lambda>i. i \<notin> set seen) ?rest)))"
        using Suc.prems eq by (intro Suc.hyps(1) [OF d]) simp_all
      then show ?thesis
        using True inSeen Suc.prems(1) eq
        by (subst selectNodeIndexes.simps) (simp add: Let_def candidate_def)
    next
      case notSeen: False
      have eq: "filter (\<lambda>i. i \<notin> set seen) (keepUnseen (map (candidate env ipfs urlCount) [c..<m]))
                  = ?x # filter (\<lambda>i. i \<notin> set (seen @ [?x])) ?rest"
        using notSeen by (simp add: upt filter_seen_snoc del: filter_filter)
      have "selectNodeIndexes env ipfs urlCount k (seen @ [?x]) (Suc c) =
              Some (Inr ((seen @ [?x]) @ take (k - length (seen @ [?x]))
                      (filter (\<lambda>i. i \<notin> set (seen @ [?x])) ?rest)))"
        using Suc.prems True eq by (intro Suc.hyps(1) [OF d]) simp_all
      moreover have "k - length seen = Suc (k - length (seen @ [?x]))"
        using True by simp
      then have "seen @ take (k - length seen) (?x # filter (\<lambda>i. i \<notin> set (seen @ [?x])) ?rest)
                 = (seen @ [?x]) @ take (k - length (seen @ [?x]))
                      (filter (\<lambda>i. i \<notin> set (seen @ [?x])) ?rest)"
        by (simp only: take_Suc_Cons append_assoc append_Cons append_Nil)
      ultimately show ?thesis
        using True notSeen xlt Suc.prems(1) eq
        by (subst selectNodeIndexes.simps) (simp add: Let_def candidate_def)
    qed
  qed
qed

lemma selectNodeIndexes_specified:
  assumes "0 < urlCount" and "k \<le> card (candidate env ipfs urlCount ` {..<m})"
  shows "selectNodeIndexes env ipfs urlCount k [] 0 =
           Some (Inr (specifiedSelection env ipfs urlCount k m))"
proof -
  have "card (candidate env ipfs urlCount ` {..<m})
          = length (keepUnseen (map (candidate env ipfs urlCount) [0..<m]))"
    by (simp add: length_keepUnseen atLeast_upt)
  with assms(2) have "k \<le> length (keepUnseen (map (candidate env ipfs urlCount) [0..<m]))"
    by simp
  then show ?thesis
    using selectNodeIndexes_from [of urlCount "[]" k env ipfs 0 m] assms(1)
    by (simp add: specifiedSelection_def)
qed

lemma demo_candidates: "map (candidate demoEnv ''Qm'' 3) [0..<2] = [0, 1]"
  by (simp add: candidate_def demoEnv_def upt_rec digit_def decimal.simps)

lemma demo_card: "2 \<le> card (candidate demoEnv ''Qm'' 3 ` {..<2})"
proof -
  have "candidate demoEnv ''Qm'' 3 ` {..<2} = set (map (candidate demoEnv ''Qm'' 3) [0..<2])"
    by (simp add: atLeast_upt)
  also have "\<dots> = {0, 1}" by (simp only: demo_candidates) simp
  finally show ?thesis by simp
qed

lemma demo_selection: "selectNodeIndexes demoEnv ''Qm'' 3 2 [] 0 = Some (Inr [0, 1])"
  using selectNodeIndexes_specified [of 3 2 demoEnv "''Qm''" 2] demo_card
  by (simp add: specifiedSelection_def demo_candidates)

subsection \<open>Lemmas on the session signatures\<close>

lemma foldl_update_lookup:
  "foldl (\<lambda>m node. m(node \<mapsto> f node)) m0 nodes u =
     (if u \<in> set nodes then Some (f u) else m0 u)"
  by (induction nodes arbitrary: m0) auto

lemma signatures_lookup:
  "signatures env clock params sk a nodes u =
     (if u \<in> set nodes then Some (sessionSigFor env clock params sk a u) else None)"
  by (simp add: signatures_def foldl_update_lookup)

lemma getSessionSigs_Inr:
  assumes "getSessionSigs env client clock st params = Inr (sigs, st')"
  shows "\<exists>sk st1 a. sessionKeyOf env st params = Inr (sk, st1)
           \<and> sigs = signatures env clock params sk a (connectedNodes client)"
  using assms
  by (auto simp: getSessionSigs_def Let_def
      split: sum.splits option.splits prod.splits if_splits)

lemma demo_getSessionSigs:
  "getSessionSigs demoEnv demoClient demoClock emptyStorage demoParams
     = Inr (demoSigs, demoStorageAfter)"
  by (simp add: getSessionSigs_def sessionKeyOf_def getSessionKey_def getWalletSig_def
      checkNeedToResignSessionKey_def getStorageItem_def setStorageItem_def
      authNeededCallbackBody_def sessionCapabilityObjectOf_def expirationOf_def
      getSessionKeyUri_def LIT_SESSION_KEY_URI_def truthy_def nullishCoalesce_def orElse_def
      spreadIfTruthy_def verifyCapabilitiesForResource_def getResourceKey_def
      demoEnv_def demoClient_def demoParams_def demoCallback_def demoWalletSig_def
      demoKey_def demoSiwe_def demoRequests_def demoPkp_def emptyStorage_def
      demoSigs_def demoStorageAfter_def WALLET_SIGNATURE_def SESSION_KEY_def Let_def)

section \<open>The claims\<close>

text \<open>
  C1. \<open>#checkNeedToResignSessionKey\<close> returns true if and only if, for the SIWE message
  of the AuthSig, the signature verification fails, or the uri differs from the session
  key uri, or the resources are missing or empty, or the capability object decoded from
  the first resource fails \<open>verifyCapabilitiesForResource\<close> for at least one requested
  (resource, ability) pair. It returns false if and only if the message verifies, its uri
  is the session key uri, and the capability object decoded from its first resource
  verifies every requested pair.
\<close>

theorem C1_resign_predicate:
  "(checkNeedToResignSessionKey env cached sessionKeyUri rars = Inr True \<longleftrightarrow>
      (\<exists>m. parseSiweMessage env (signedMessage cached) = Some m \<and>
         (\<not> siweValidate env m (sig cached)
          \<or> uri m \<noteq> sessionKeyUri
          \<or> resources m = None \<or> resources m = Some []
          \<or> (\<exists>r0 rest c. resources m = Some (r0 # rest) \<and> decode env r0 = Some c \<and>
                (\<exists>r \<in> set rars.
                   \<not> verifyCapabilitiesForResource c (resource r) (ability r))))))
   \<and> (checkNeedToResignSessionKey env cached sessionKeyUri rars = Inr False \<longleftrightarrow>
      (\<exists>m r0 rest c. parseSiweMessage env (signedMessage cached) = Some m \<and>
         siweValidate env m (sig cached) \<and> uri m = sessionKeyUri \<and>
         resources m = Some (r0 # rest) \<and> decode env r0 = Some c \<and>
         (\<forall>r \<in> set rars. verifyCapabilitiesForResource c (resource r) (ability r))))"
  by (auto simp: checkNeedToResignSessionKey_def capabilitiesDoNotMatch_iff
      split: option.splits list.splits)

text \<open>
  C1 on a concrete wallet signature: accepted for its own session key uri, stale for
  another one.
\<close>

theorem C1_resign_predicate_witness:
  "checkNeedToResignSessionKey demoEnv demoWalletSig ''lit:session:ab12'' demoRequests = Inr False
   \<and> checkNeedToResignSessionKey demoEnv demoWalletSig ''lit:session:ffff'' demoRequests = Inr True"
  using C1_resign_predicate [of demoEnv demoWalletSig "''lit:session:ab12''" demoRequests]
        C1_resign_predicate [of demoEnv demoWalletSig "''lit:session:ffff''" demoRequests]
  by (simp add: demoEnv_def demoWalletSig_def demoSiwe_def demoRequests_def demoPkp_def
      verifyCapabilitiesForResource_def getResourceKey_def)

text \<open>
  C2, counterexample. The caller supplies no capability object and requests PKP signing
  on one resource; the generated capability object does not verify that resource.
\<close>

theorem C2_no_wildcards_counterexample:
  "gs_sessionCapabilityObject demoParams = None
   \<and> demoPkp \<in> set (map resource (gs_resourceAbilityRequests demoParams))
   \<and> \<not> verifyCapabilitiesForResource (sessionCapabilityObjectOf demoParams) demoPkp PKPSigning"
  by (simp add: demoParams_def demoRequests_def sessionCapabilityObjectOf_def
      generateSessionCapabilityObjectWithWildcards_def
      generateSessionCapabilityObjectWithWildcards_static_def
      newRecapSessionCapabilityObject_def verifyCapabilitiesForResource_def)

text \<open>
  C2, amended. When the caller supplies no session capability object, the object that
  \<open>getSessionSigs\<close> generates is the capability object without grants, which verifies
  no ability on any resource: the instance method calls the static one without
  \<open>addAllCapabilities\<close>, which then is false. The static method called with
  \<open>addAllCapabilities = true\<close> grants every ability on every listed resource.
\<close>

theorem C2_generated_capabilities:
  "(gs_sessionCapabilityObject params = None \<longrightarrow>
      sessionCapabilityObjectOf params = newRecapSessionCapabilityObject
      \<and> (\<forall>r a. \<not> verifyCapabilitiesForResource (sessionCapabilityObjectOf params) r a))
   \<and> (\<forall>r \<in> set litResources. \<forall>a.
        verifyCapabilitiesForResource
          (generateSessionCapabilityObjectWithWildcards_static litResources (Some True)) r a)"
  by (auto simp: sessionCapabilityObjectOf_def generateSessionCapabilityObjectWithWildcards_def
      generateSessionCapabilityObjectWithWildcards_static_def
      newRecapSessionCapabilityObject_def verifyCapabilitiesForResource_def set_foldl_addAll)

text \<open>C2, amended, on the concrete request above.\<close>

theorem C2_generated_capabilities_witness:
  "sessionCapabilityObjectOf demoParams = newRecapSessionCapabilityObject
   \<and> verifyCapabilitiesForResource
       (generateSessionCapabilityObjectWithWildcards_static [demoPkp] (Some True))
       demoPkp PKPSigning"
  using C2_generated_capabilities [of demoParams "[demoPkp]"]
  by (simp add: demoParams_def)

text \<open>
  C3. \<open>runOnTargetedNodes\<close> on three urls with a session signature each and
  \<open>targetNodeRange = 2\<close>: the data of both commands is the caller's \<open>params\<close>, which
  has no \<open>authSig\<close>, although the session signature for the url is present in
  \<open>sessionSigs\<close>.
\<close>

theorem C3_targeted_request_data:
  "runOnTargetedNodes demoEnv demoClient demoExecParams ''req''
     = Some (Inr [\<lparr> url = ''https://n1'', data = SdkParams demoExecParams, requestId = ''req'' \<rparr>,
                  \<lparr> url = ''https://n2'', data = SdkParams demoExecParams, requestId = ''req'' \<rparr>])
   \<and> sessionSigs demoExecParams ''https://n1'' = Some (demoSessionSig ''https://n1'')
   \<and> authSigOfData (SdkParams demoExecParams) = None"
proof -
  have ipfs: "getIpfsId demoEnv (code demoExecParams) (sessionSigs demoExecParams) = Inr ''Qm''"
    by (simp add: demoEnv_def)
  have range: "targetNodeRange demoExecParams = 2"
    by (simp add: demoExecParams_def)
  have urls: "bootstrapUrls demoClient = [''https://n1'', ''https://n2'', ''https://n3'']"
    by (simp add: demoClient_def)
  have s1: "sessionSigs demoExecParams ''https://n1'' = Some (demoSessionSig ''https://n1'')"
    by (simp add: demoExecParams_def)
  have s2: "sessionSigs demoExecParams ''https://n2'' = Some (demoSessionSig ''https://n2'')"
    by (simp add: demoExecParams_def)
  have w: "wrapper demoClient demoExecParams ''req'' [0, 1]
     = Inr [\<lparr> url = ''https://n1'', data = SdkParams demoExecParams, requestId = ''req'' \<rparr>,
            \<lparr> url = ''https://n2'', data = SdkParams demoExecParams, requestId = ''req'' \<rparr>]"
    by (simp add: urls s1 s2 getSessionSigByUrl_def Let_def)
  have len: "length (bootstrapUrls demoClient) = 3"
    by (simp add: urls)
  have r: "runOnTargetedNodes demoEnv demoClient demoExecParams ''req''
     = Some (wrapper demoClient demoExecParams ''req'' [0, 1])"
    by (simp add: runOnTargetedNodes_def ipfs range len demo_selection del: wrapper.simps)
  show ?thesis
    unfolding r w using s1 by simp
qed

text \<open>
  C4. For \<open>0 < k \<le> |U|\<close>, when the candidates of the counters below some \<open>m\<close> reach
  \<open>k\<close> different indexes, the loop of \<open>runOnTargetedNodes\<close> returns, and what it returns
  is the selection of the specified algorithm: the first \<open>k\<close> unseen candidates in the
  order of the counters. The selection has exactly \<open>k\<close> indexes, they are distinct, and
  each is an index of \<open>U\<close>. The result is a function of the digests, the ipfs id, \<open>|U|\<close>
  and \<open>k\<close> alone, so two runs with the same inputs select the same indexes.
\<close>

theorem C4_targeted_selection:
  assumes "0 < k" and "k \<le> urlCount"
    and "k \<le> card (candidate env ipfs urlCount ` {..<m})"
  shows "selectNodeIndexes env ipfs urlCount k [] 0 =
           Some (Inr (specifiedSelection env ipfs urlCount k m))
         \<and> length (specifiedSelection env ipfs urlCount k m) = k
         \<and> distinct (specifiedSelection env ipfs urlCount k m)
         \<and> (\<forall>i \<in> set (specifiedSelection env ipfs urlCount k m). i < urlCount)"
proof -
  have pos: "0 < urlCount" using assms(1,2) by simp
  have len: "k \<le> length (keepUnseen (map (candidate env ipfs urlCount) [0..<m]))"
    using assms(3) by (simp add: length_keepUnseen atLeast_upt)
  have a: "selectNodeIndexes env ipfs urlCount k [] 0 =
           Some (Inr (specifiedSelection env ipfs urlCount k m))"
    using selectNodeIndexes_specified [OF pos assms(3)] .
  have b: "length (specifiedSelection env ipfs urlCount k m) = k"
    using len by (simp add: specifiedSelection_def)
  have c: "distinct (specifiedSelection env ipfs urlCount k m)"
    by (simp add: specifiedSelection_def distinct_keepUnseen)
  have d: "\<forall>i \<in> set (specifiedSelection env ipfs urlCount k m). i < urlCount"
  proof
    fix i assume "i \<in> set (specifiedSelection env ipfs urlCount k m)"
    then have "i \<in> set (keepUnseen (map (candidate env ipfs urlCount) [0..<m]))"
      unfolding specifiedSelection_def by (rule in_set_takeD)
    then obtain c where "i = candidate env ipfs urlCount c"
      by (auto simp: set_keepUnseen)
    then show "i < urlCount" using pos by (simp add: candidate_def)
  qed
  from a b c d show ?thesis by simp
qed

text \<open>C4 on three urls with \<open>k = 2\<close>: the counters 0 and 1 give the indexes 0 and 1.\<close>

theorem C4_targeted_selection_witness:
  "selectNodeIndexes demoEnv ''Qm'' 3 2 [] 0 = Some (Inr [0, 1])"
  using C4_targeted_selection [of 2 3 demoEnv "''Qm''" 2] demo_card
  by (simp add: specifiedSelection_def demo_candidates)

text \<open>
  C5. When the caller gives no expiration, the expiration of every signed template is
  the one of \<open>getExpiration\<close>, one day after the reading of the clock; the fallback of five
  minutes is never taken, because \<open>expiration\<close> is already a string. On the concrete
  inputs, with the clock at 1000 ms, the entry for the first node expires at 86401000 ms
  and not at 301000 ms.
\<close>

theorem C5_default_session_expiration:
  "expiration (signedMessage
       (sessionSigFor env clock (params \<lparr> gs_expiration := None \<rparr>) sk a node))
     = toISOString env (nowGetExpiration clock + 1000 * 60 * 60 * 24)
   \<and> gs_expiration demoParams = None
   \<and> getSessionSigs demoEnv demoClient demoClock emptyStorage demoParams
       = Inr (demoSigs, demoStorageAfter)
   \<and> map_option (expiration \<circ> signedMessage) (demoSigs ''https://n1'')
       = Some (toISOString demoEnv (nowGetExpiration demoClock + 1000 * 60 * 60 * 24))
   \<and> toISOString demoEnv (nowGetExpiration demoClock + 1000 * 60 * 60 * 24) = ''86401000''
   \<and> toISOString demoEnv (nowSessionExpiration demoClock + 1000 * 60 * 5) = ''301000''"
proof -
  have general: "expiration (signedMessage
       (sessionSigFor env clock (params \<lparr> gs_expiration := None \<rparr>) sk a node))
     = toISOString env (nowGetExpiration clock + 1000 * 60 * 60 * 24)"
    by (simp add: sessionSigFor_def toSign_def sessionExpirationOf_def expirationOf_def
        nullishCoalesce_def orElse_def getExpiration_def Let_def)
  have none: "gs_expiration demoParams = None"
    by (simp add: demoParams_def)
  have entry: "map_option (expiration \<circ> signedMessage) (demoSigs ''https://n1'')
       = Some (toISOString demoEnv (nowGetExpiration demoClock + 1000 * 60 * 60 * 24))"
    by (simp add: demoSigs_def signatures_lookup demoClient_def sessionSigFor_def toSign_def
        sessionExpirationOf_def expirationOf_def nullishCoalesce_def orElse_def
        getExpiration_def Let_def none)
  have day: "toISOString demoEnv (nowGetExpiration demoClock + 1000 * 60 * 60 * 24) = ''86401000''"
    by (simp add: demoEnv_def demoClock_def decimal.simps digit_def)
  have five: "toISOString demoEnv (nowSessionExpiration demoClock + 1000 * 60 * 5) = ''301000''"
    by (simp add: demoEnv_def demoClock_def decimal.simps digit_def)
  from general none demo_getSessionSigs entry day five show ?thesis by blast
qed

text \<open>
  C6. A store whose wallet-signature slot holds text that \<open>JSON.parse\<close> rejects, and a
  caller who supplies \<open>authNeededCallback\<close>: \<open>#getWalletSig\<close> returns \<open>undefined\<close> and
  leaves the store as it is; the callback, which would give a wallet signature, is not
  invoked.
\<close>

theorem C6_unparsable_cached_wallet_sig:
  "getStorageItem corruptStorage WALLET_SIGNATURE = ERight ''{wallet''
   \<and> jsonParseAuthSig demoEnv ''{wallet'' = None
   \<and> ws_authNeededCallback demoWalletProps = Some demoCallback
   \<and> demoCallback (authNeededCallbackBody demoEnv demoWalletProps) = Inr demoWalletSig
   \<and> getWalletSig demoEnv demoClient corruptStorage demoWalletProps = Inr (None, corruptStorage)"
  by (simp add: getWalletSig_def getStorageItem_def corruptStorage_def WALLET_SIGNATURE_def
      SESSION_KEY_def demoEnv_def demoWalletProps_def demoCallback_def)

text \<open>
  C7. A store whose session-key slot holds text that \<open>JSON.parse\<close> rejects:
  \<open>getSessionKey\<close> fails with the syntax error and generates no key pair, whereas on the
  empty store it generates one and writes it.
\<close>

theorem C7_unparsable_session_key:
  "getStorageItem corruptStorage SESSION_KEY = ERight ''{key''
   \<and> jsonParseSessionKey demoEnv ''{key'' = None
   \<and> getSessionKey demoEnv corruptStorage = Inl JsonSyntaxError
   \<and> getSessionKey demoEnv emptyStorage =
       Inr (demoKey, emptyStorage \<lparr> items := [SESSION_KEY \<mapsto> ''{key}''] \<rparr>)"
  by (simp add: getSessionKey_def getStorageItem_def setStorageItem_def corruptStorage_def
      emptyStorage_def WALLET_SIGNATURE_def SESSION_KEY_def demoEnv_def)

text \<open>
  C8, counterexample. The session signature that \<open>getSessionSigs\<close> produces for the
  first node on the concrete inputs: its signed message has no \<open>uri\<close>, so the \<open>uri\<close> is
  not \<open>lit:session:\<close> followed by the address.
\<close>

theorem C8_uri_of_signed_message_counterexample:
  "getSessionSigs demoEnv demoClient demoClock emptyStorage demoParams
       = Inr (demoSigs, demoStorageAfter)
   \<and> demoSigs ''https://n1'' = Some (demoSessionSig ''https://n1'')
   \<and> stringProperty (signedMessage (demoSessionSig ''https://n1'')) ''uri'' = None
   \<and> stringProperty (signedMessage (demoSessionSig ''https://n1'')) ''uri''
       \<noteq> Some (''lit:session:'' @ address (demoSessionSig ''https://n1''))"
proof -
  have entry: "demoSigs ''https://n1'' = Some (demoSessionSig ''https://n1'')"
    by (simp add: demoSigs_def signatures_lookup demoClient_def demoSessionSig_def)
  have nouri: "stringProperty (signedMessage (demoSessionSig ''https://n1'')) ''uri'' = None"
    by (simp add: stringProperty_def)
  from demo_getSessionSigs entry nouri show ?thesis by simp
qed

text \<open>
  C8, amended. For every session signature \<open>s\<close> that \<open>getSessionSigs\<close> produces, the
  signed message records no \<open>uri\<close>; its \<open>sessionKey\<close> equals \<open>s.address\<close>, so that the
  SessionKeyUri of the recorded session key is \<open>lit:session:\<close> followed by \<open>s.address\<close>.
\<close>

theorem C8_session_key_of_signed_message:
  assumes "getSessionSigs env client clock st params = Inr (sigs, st')"
    and "sigs u = Some s"
  shows "stringProperty (signedMessage s) ''uri'' = None
         \<and> stringProperty (signedMessage s) ''sessionKey'' = Some (address s)
         \<and> getSessionKeyUri (sessionKey (signedMessage s)) = ''lit:session:'' @ address s"
proof -
  from getSessionSigs_Inr [OF assms(1)] obtain sk a
    where sigs: "sigs = signatures env clock params sk a (connectedNodes client)"
    by blast
  with assms(2) have s: "s = sessionSigFor env clock params sk a u"
    by (simp add: signatures_lookup split: if_splits)
  show ?thesis
    by (simp add: s sessionSigFor_def toSign_def stringProperty_def getSessionKeyUri_def
        LIT_SESSION_KEY_URI_def Let_def)
qed

text \<open>C8, amended, on the session signature for the first node of the concrete inputs.\<close>

theorem C8_session_key_of_signed_message_witness:
  "stringProperty (signedMessage (demoSessionSig ''https://n1'')) ''sessionKey'' = Some ''ab12''
   \<and> getSessionKeyUri (sessionKey (signedMessage (demoSessionSig ''https://n1'')))
       = ''lit:session:ab12''"
proof -
  have entry: "demoSigs ''https://n1'' = Some (demoSessionSig ''https://n1'')"
    by (simp add: demoSigs_def signatures_lookup demoClient_def demoSessionSig_def)
  have addr: "address (demoSessionSig ''https://n1'') = ''ab12''"
    by (simp add: demoSessionSig_def sessionSigFor_def demoKey_def Let_def)
  from C8_session_key_of_signed_message [OF demo_getSessionSigs entry] addr
  show ?thesis by simp
qed

text \<open>
  C9, counterexample. Two complete shares and a third share that has every required
  field but no \<open>ProofOfPossession\<close> in its \<open>signatureShare\<close>, with \<open>minNodeCount = 2\<close>:
  the call fails although the number of shares with every required field (three), and
  even the number of those that also carry a proof (two), is not below \<open>minNodeCount\<close>.
\<close>

theorem C9_fails_iff_shortfall_counterexample:
  "signSessionKey demoBlsEnv 2 ''0x04ab'' [goodShare 1, goodShare 2, shareWithoutProof 3]
     = Inl ProofOfPossessionMissing
   \<and> \<not> length (filter hasEveryRequiredField
                  [goodShare 1, goodShare 2, shareWithoutProof 3]) < 2
   \<and> \<not> length (filter isValidShare [goodShare 1, goodShare 2, shareWithoutProof 3]) < 2"
  by (simp add: signSessionKey_def validatedSignedDataList_def validateSignedData_def
      hasEveryRequiredField_def isValidShare_def present_def truthy_def
      requiredFields_def fieldEmpty_def noProofOfPossession_def goodShare_def
      shareWithoutProof_def emptyString_def emptyNumber_def emptyBoolean_def emptyObject_def)

text \<open>
  C9, amended. Every response that misses a required field (not sent, or sent as the
  empty string) is dropped: the callback returns \<open>null\<close> for it and does not throw. When
  no response carries \<open>shareIndex\<close> 0 or \<open>result\<close> false, the share set is exactly the
  responses with every required field, and the call, once the node responses have
  arrived, fails if and only if there is no response at all, or a response with every
  required field has no \<open>ProofOfPossession\<close>, or fewer than \<open>minNodeCount\<close> responses
  have every required field, or a library call that combines those responses into the
  AuthSig throws; a call that does not fail returns the AuthSig combined from them.
\<close>

theorem C9_share_shortfall:
  "(\<forall>d \<in> set responseData.
      \<not> hasEveryRequiredField d \<longrightarrow> validateSignedData d = Inr None)
   \<and> ((\<forall>d \<in> set responseData. noFalsyNumberOrBoolean d) \<longrightarrow>
        (\<forall>shares. validatedSignedDataList responseData = Inr shares \<longrightarrow>
           shares = filter hasEveryRequiredField responseData)
        \<and> (isl (signSessionKey env minNodeCount pkpPublicKey responseData) \<longleftrightarrow>
             responseData = []
             \<or> (\<exists>d \<in> set responseData. hasEveryRequiredField d \<and> noProofOfPossession d)
             \<or> length (filter hasEveryRequiredField responseData) < minNodeCount
             \<or> isl (combineValidatedShares env pkpPublicKey
                       (filter hasEveryRequiredField responseData)))
        \<and> (\<forall>r. signSessionKey env minNodeCount pkpPublicKey responseData = Inr r \<longrightarrow>
             combineValidatedShares env pkpPublicKey
               (filter hasEveryRequiredField responseData) = Inr r))"
proof -
  have dropped: "\<forall>d \<in> set responseData.
      \<not> hasEveryRequiredField d \<longrightarrow> validateSignedData d = Inr None"
    by (simp add: validateSignedData_def field_test_of_missing)
  have rest: "(\<forall>shares. validatedSignedDataList responseData = Inr shares \<longrightarrow>
           shares = filter hasEveryRequiredField responseData)
        \<and> (isl (signSessionKey env minNodeCount pkpPublicKey responseData) \<longleftrightarrow>
             responseData = []
             \<or> (\<exists>d \<in> set responseData. hasEveryRequiredField d \<and> noProofOfPossession d)
             \<or> length (filter hasEveryRequiredField responseData) < minNodeCount
             \<or> isl (combineValidatedShares env pkpPublicKey
                       (filter hasEveryRequiredField responseData)))
        \<and> (\<forall>r. signSessionKey env minNodeCount pkpPublicKey responseData = Inr r \<longrightarrow>
             combineValidatedShares env pkpPublicKey
               (filter hasEveryRequiredField responseData) = Inr r)"
    if h: "\<forall>d \<in> set responseData. noFalsyNumberOrBoolean d"
  proof (cases "mapValidate responseData")
    case (Inl e)
    from mapValidate_Inl [OF Inl] obtain d
      where "d \<in> set responseData" "\<not> list_ex (fieldEmpty d) requiredFields"
        "noProofOfPossession d"
      by blast
    with h have "\<exists>d \<in> set responseData. hasEveryRequiredField d \<and> noProofOfPossession d"
      using field_test_iff by blast
    with Inl show ?thesis
      by (auto simp: signSessionKey_def validatedSignedDataList_def)
  next
    case (Inr rs)
    from mapValidate_Inr [OF Inr] filter_field_test [OF h]
    have kept: "filterNotNull rs = filter hasEveryRequiredField responseData"
      and proofs: "\<forall>d \<in> set responseData.
                     \<not> list_ex (fieldEmpty d) requiredFields \<longrightarrow> \<not> noProofOfPossession d"
      by simp_all
    from proofs h
    have noBad: "\<not> (\<exists>d \<in> set responseData. hasEveryRequiredField d \<and> noProofOfPossession d)"
      using field_test_iff by blast
    show ?thesis
      using Inr kept noBad
      by (auto simp: signSessionKey_def validatedSignedDataList_def)
  qed
  from dropped rest show ?thesis by blast
qed

text \<open>
  C9, amended, on two complete shares and one without \<open>siweMessage\<close>: the incomplete
  one is dropped; the two others suffice for \<open>minNodeCount = 2\<close> and are combined, and
  do not suffice for 3.
\<close>

theorem C9_share_shortfall_witness:
  "validateSignedData (shareWithoutSiwe 2) = Inr None
   \<and> validatedSignedDataList [goodShare 1, shareWithoutSiwe 2, goodShare 3]
       = Inr [goodShare 1, goodShare 3]
   \<and> \<not> isl (signSessionKey demoBlsEnv 2 ''0x04ab''
               [goodShare 1, shareWithoutSiwe 2, goodShare 3])
   \<and> isl (signSessionKey demoBlsEnv 3 ''0x04ab''
             [goodShare 1, shareWithoutSiwe 2, goodShare 3])"
  using C9_share_shortfall
          [of "[goodShare 1, shareWithoutSiwe 2, goodShare 3]" demoBlsEnv 2 "''0x04ab''"]
        C9_share_shortfall
          [of "[goodShare 1, shareWithoutSiwe 2, goodShare 3]" demoBlsEnv 3 "''0x04ab''"]
  by (simp add: signSessionKey_def combineValidatedShares_def validatedSignedDataList_def
      validateSignedData_def noFalsyNumberOrBoolean_def hasEveryRequiredField_def
      present_def truthy_def requiredFields_def fieldEmpty_def noProofOfPossession_def
      goodShare_def shareWithoutSiwe_def demoBlsEnv_def emptyString_def emptyNumber_def
      emptyBoolean_def emptyObject_def Let_def)

text \<open>
  C10. For every successful call of \<open>getSessionSigs\<close> there is one template such that
  every entry of the returned map is the signature, under the secret key of the session
  key, over that template with \<open>nodeAddress\<close> set to the entry's key; and the address of
  every entry is the public key of the session key.
\<close>

theorem C10_templates_differ_in_node_address_only:
  assumes "getSessionSigs env client clock st params = Inr (sigs, st')"
  shows "\<exists>sk st1 base.
           sessionKeyOf env st params = Inr (sk, st1)
           \<and> (\<forall>u s. sigs u = Some s \<longrightarrow>
                 signedMessage s = base \<lparr> nodeAddress := u \<rparr>
                 \<and> sig s = naclSignDetached env (signedMessage s) (secretKey sk)
                 \<and> address s = publicKey sk)"
proof -
  from getSessionSigs_Inr [OF assms] obtain sk st1 a
    where k: "sessionKeyOf env st params = Inr (sk, st1)"
      and sigs: "sigs = signatures env clock params sk a (connectedNodes client)"
    by blast
  have "\<forall>u s. sigs u = Some s \<longrightarrow>
          signedMessage s = (toSign env clock params sk a []) \<lparr> nodeAddress := u \<rparr>
          \<and> sig s = naclSignDetached env (signedMessage s) (secretKey sk)
          \<and> address s = publicKey sk"
    by (auto simp: sigs signatures_lookup sessionSigFor_def toSign_def Let_def split: if_splits)
  with k show ?thesis by blast
qed

text \<open>C10 on the two entries of the map for the concrete inputs.\<close>

theorem C10_templates_differ_in_node_address_only_witness:
  "\<exists>base. signedMessage (demoSessionSig ''https://n1'') = base \<lparr> nodeAddress := ''https://n1'' \<rparr>
         \<and> signedMessage (demoSessionSig ''https://n2'') = base \<lparr> nodeAddress := ''https://n2'' \<rparr>
         \<and> address (demoSessionSig ''https://n1'') = publicKey demoKey
         \<and> address (demoSessionSig ''https://n2'') = publicKey demoKey"
proof -
  from C10_templates_differ_in_node_address_only [OF demo_getSessionSigs]
  obtain sk st1 base
    where k: "sessionKeyOf demoEnv emptyStorage demoParams = Inr (sk, st1)"
      and all: "\<forall>u s. demoSigs u = Some s \<longrightarrow>
                 signedMessage s = base \<lparr> nodeAddress := u \<rparr>
                 \<and> sig s = naclSignDetached demoEnv (signedMessage s) (secretKey sk)
                 \<and> address s = publicKey sk"
    by blast
  have sk: "sk = demoKey"
    using k
    by (simp add: sessionKeyOf_def getSessionKey_def getStorageItem_def setStorageItem_def
        emptyStorage_def demoParams_def demoEnv_def Let_def)
  have e1: "demoSigs ''https://n1'' = Some (demoSessionSig ''https://n1'')"
    by (simp add: demoSigs_def signatures_lookup demoClient_def demoSessionSig_def)
  have e2: "demoSigs ''https://n2'' = Some (demoSessionSig ''https://n2'')"
    by (simp add: demoSigs_def signatures_lookup demoClient_def demoSessionSig_def)
  from all e1 e2 sk show ?thesis by blast
qed

end
